theory Spec2Isabelle
  imports Main
begin

section \<open>Python dictionaries\<close>

text \<open>
  A Python \<^verbatim>\<open>dict\<close> keeps its keys in insertion order. It is modelled as an association
  list with distinct keys: \<open>d[k] = v\<close> replaces the value in place when \<open>k\<close> is already a
  key (the key keeps its position) and appends the pair otherwise.
\<close>

fun dict_set :: "('k \<times> 'v) list \<Rightarrow> 'k \<Rightarrow> 'v \<Rightarrow> ('k \<times> 'v) list" where
  "dict_set [] k v = [(k, v)]"
| "dict_set ((k', v') # d) k v =
     (if k' = k then (k', v) # d else (k', v') # dict_set d k v)"

definition dict_get :: "('k \<times> 'v) list \<Rightarrow> 'k \<Rightarrow> 'v option" where
  "dict_get d k = map_of d k"

definition dict_keys :: "('k \<times> 'v) list \<Rightarrow> 'k list" where
  "dict_keys d = map fst d"

section \<open>The syntax tree handed over by \<^verbatim>\<open>ast.parse\<close>\<close>

text \<open>
  Only the node kinds that \<^verbatim>\<open>code_read_parser.py\<close> tests with \<^verbatim>\<open>isinstance\<close> are told
  apart. Every other expression is \<open>OtherExpr\<close> (a call, a subscript, a tuple, ...), every
  other node that can hold statements (another statement, an exception handler, a match
  case) is \<open>OtherStmt\<close>, which carries the nodes nested in it in the order
  \<^verbatim>\<open>ast.iter_child_nodes\<close> yields them (none for a simple statement). The payload of a
  float, complex or bytes constant is its source text: only its kind is ever inspected.
\<close>

datatype py_constant =
    CNone | CBool bool | CInt int | CFloat string | CComplex string
  | CStr string | CBytes string | CEllipsis

datatype expr =
    Name string
  | Attribute expr string
  | Constant py_constant
  | OtherExpr string

text \<open>\<open>Arg name annotation\<close> is \<^verbatim>\<open>ast.arg\<close>; \<open>Arguments posonlyargs args kwonlyargs\<close> is
  \<^verbatim>\<open>ast.arguments\<close>.\<close>

datatype arg = Arg string "expr option"

datatype arguments = Arguments "arg list" "arg list" "arg list"

text \<open>
  \<open>FunctionDef name args body decorator_list returns\<close>, \<open>ClassDef name bases body\<close>,
  \<open>Assign targets value\<close>, \<open>AnnAssign target annotation value\<close>.
\<close>

datatype stmt =
    FunctionDef string arguments "stmt list" "expr list" "expr option"
  | ClassDef string "expr list" "stmt list"
  | Assign "expr list" expr
  | AnnAssign expr expr "expr option"
  | OtherStmt "stmt list"

type_synonym module = "stmt list"

text \<open>The statements directly below a node; expressions never contain statements.\<close>

fun child_stmts :: "stmt \<Rightarrow> stmt list" where
  "child_stmts (FunctionDef name args body decorator_list returns) = body"
| "child_stmts (ClassDef name bases body) = body"
| "child_stmts (Assign targets val) = []"
| "child_stmts (AnnAssign target annotation val) = []"
| "child_stmts (OtherStmt body) = body"

text \<open>
  \<^verbatim>\<open>ast.walk\<close> is breadth first: it pops the first node of a queue, appends the node's
  children to the queue and yields the node. The module node itself is yielded first and
  is never a class definition, so the walk of a module starts from its body.
\<close>

function walk_queue :: "stmt list \<Rightarrow> stmt list" where
  "walk_queue [] = []"
| "walk_queue (node # todo) = node # walk_queue (todo @ child_stmts node)"
  by pat_completeness auto
termination
proof (relation "measure (size_list size)")
  show "wf (measure (size_list (size :: stmt \<Rightarrow> nat)))"
    by simp
next
  fix node :: stmt and todo :: "stmt list"
  have "size_list size (child_stmts node) \<le> size node"
    by (cases node) simp_all
  then show "(todo @ child_stmts node, node # todo) \<in> measure (size_list size)"
    by simp
qed

definition walk :: "module \<Rightarrow> stmt list" where
  "walk tree = walk_queue tree"

section \<open>The class model built by \<^verbatim>\<open>CodeReadParser\<close>\<close>

text \<open>
  One entry of \<^verbatim>\<open>classes_info\<close> is the dictionary
  \<^verbatim>\<open>{"attributes": {...}, "methods": [...], "parent_classes": [...]}\<close>; one element of
  \<^verbatim>\<open>methods\<close> is \<^verbatim>\<open>{"name", "args", "decorators", "return_type"}\<close>.
\<close>

record method_info =
  name :: string
  args :: "string list"
  decorators :: "string list"
  return_type :: string

record class_info =
  attributes :: "(string \<times> string) list"
  methods :: "method_info list"
  parent_classes :: "string list"

record code_read_parser =
  classes_path :: "(string \<times> string) list"
  classes_info :: "(string \<times> class_info) list"

text \<open>
  \<^verbatim>\<open>ast.unparse\<close> is a library routine: the functions below take it as the parameter
  \<open>unparse\<close>. \<open>unparse_ident\<close> is the rendering of plain and dotted names, used where a
  concrete input is evaluated.
\<close>

fun unparse_ident :: "expr \<Rightarrow> string" where
  "unparse_ident (Name ident) = ident"
| "unparse_ident (Attribute e attr) = unparse_ident e @ ''.'' @ attr"
| "unparse_ident (Constant c) = ''''"
| "unparse_ident (OtherExpr src) = src"

text \<open>\<^verbatim>\<open>type(value).__name__\<close> of a constant.\<close>

fun type_name :: "py_constant \<Rightarrow> string" where
  "type_name CNone = ''NoneType''"
| "type_name (CBool b) = ''bool''"
| "type_name (CInt i) = ''int''"
| "type_name (CFloat f) = ''float''"
| "type_name (CComplex c) = ''complex''"
| "type_name (CStr s) = ''str''"
| "type_name (CBytes b) = ''bytes''"
| "type_name CEllipsis = ''ellipsis''"

text \<open>\<^verbatim>\<open>[e.id for e in es if isinstance(e, ast.Name)]\<close>, used for bases and decorators.\<close>

fun name_ids :: "expr list \<Rightarrow> string list" where
  "name_ids [] = []"
| "name_ids (Name ident # es) = ident # name_ids es"
| "name_ids (e # es) = name_ids es"

text \<open>\<^verbatim>\<open>_extract_arguments\<close>: the loop over \<^verbatim>\<open>arguments.args\<close>, appending to \<open>acc\<close>.\<close>

fun extract_arguments_loop :: "(expr \<Rightarrow> string) \<Rightarrow> arg list \<Rightarrow> string list \<Rightarrow> string list" where
  "extract_arguments_loop unparse [] acc = acc"
| "extract_arguments_loop unparse (Arg a annotation # rest) acc =
     (if a \<noteq> ''self''
      then let arg_type = (case annotation of Some ann \<Rightarrow> unparse ann | None \<Rightarrow> ''Any'')
           in extract_arguments_loop unparse rest (acc @ [a @ '': '' @ arg_type])
      else extract_arguments_loop unparse rest acc)"

fun extract_arguments :: "(expr \<Rightarrow> string) \<Rightarrow> arguments \<Rightarrow> string list" where
  "extract_arguments unparse (Arguments posonlyargs arglist kwonlyargs) =
     extract_arguments_loop unparse arglist []"

text \<open>\<^verbatim>\<open>_extract_return_type\<close>.\<close>

fun extract_return_type :: "(expr \<Rightarrow> string) \<Rightarrow> expr option \<Rightarrow> string" where
  "extract_return_type unparse (Some returns) = unparse returns"
| "extract_return_type unparse None = ''None''"

text \<open>
  \<^verbatim>\<open>hasattr(stmt, 'annotation')\<close> and \<^verbatim>\<open>stmt.annotation\<close>: of the statement nodes only
  \<^verbatim>\<open>ast.AnnAssign\<close> has the field.
\<close>

fun stmt_annotation :: "stmt \<Rightarrow> expr option" where
  "stmt_annotation (AnnAssign target annotation val) = Some annotation"
| "stmt_annotation s = None"

text \<open>
  The functions below are the methods of \<^verbatim>\<open>CodeReadParser\<close> that write
  \<^verbatim>\<open>self.classes_info[class_name]\<close>. Each takes that entry and returns it updated: the
  entry is stored by \<^verbatim>\<open>_register_classes\<close> immediately before the calls and no other
  key of the registry is touched while one class body is processed. They give what the
  methods do when no call of \<^verbatim>\<open>ast.unparse\<close> raises; the exception path follows them.
\<close>

text \<open>\<^verbatim>\<open>_process_init_method\<close>: the inner loop over \<^verbatim>\<open>stmt.targets\<close>.\<close>

fun process_init_targets :: "(expr \<Rightarrow> string) \<Rightarrow> stmt \<Rightarrow> expr list \<Rightarrow> class_info \<Rightarrow> class_info" where
  "process_init_targets unparse stmt [] info = info"
| "process_init_targets unparse stmt (Attribute (Name v) attr_name # targets) info =
     (if v = ''self''
      then let attr_type = (case stmt_annotation stmt of
                              Some ann \<Rightarrow> unparse ann | None \<Rightarrow> ''Any'')
           in process_init_targets unparse stmt targets
                (info\<lparr>attributes := dict_set (attributes info) attr_name attr_type\<rparr>)
      else process_init_targets unparse stmt targets info)"
| "process_init_targets unparse stmt (target # targets) info =
     process_init_targets unparse stmt targets info"

text \<open>\<^verbatim>\<open>_process_init_method\<close>: the loop over \<^verbatim>\<open>init_node.body\<close>.\<close>

fun process_init_method :: "(expr \<Rightarrow> string) \<Rightarrow> stmt list \<Rightarrow> class_info \<Rightarrow> class_info" where
  "process_init_method unparse [] info = info"
| "process_init_method unparse (Assign targets val # body) info =
     process_init_method unparse body
       (process_init_targets unparse (Assign targets val) targets info)"
| "process_init_method unparse (stmt # body) info = process_init_method unparse body info"

text \<open>\<^verbatim>\<open>_process_class_attribute\<close>: the loop over \<^verbatim>\<open>assign_node.targets\<close>.\<close>

fun process_class_attribute :: "expr list \<Rightarrow> expr \<Rightarrow> class_info \<Rightarrow> class_info" where
  "process_class_attribute [] val info = info"
| "process_class_attribute (Name attr_name # targets) val info =
     (let attr_type = (case val of Constant c \<Rightarrow> type_name c | _ \<Rightarrow> ''Any'')
      in process_class_attribute targets val
           (info\<lparr>attributes := dict_set (attributes info) attr_name attr_type\<rparr>))"
| "process_class_attribute (target # targets) val info =
     process_class_attribute targets val info"

text \<open>\<^verbatim>\<open>_process_annotated_attribute\<close>.\<close>

fun process_annotated_attribute :: "(expr \<Rightarrow> string) \<Rightarrow> expr \<Rightarrow> expr \<Rightarrow> class_info \<Rightarrow> class_info" where
  "process_annotated_attribute unparse (Name attr_name) annotation info =
     info\<lparr>attributes := dict_set (attributes info) attr_name (unparse annotation)\<rparr>"
| "process_annotated_attribute unparse target annotation info = info"

text \<open>\<^verbatim>\<open>_process_method\<close>, called on a \<^verbatim>\<open>FunctionDef\<close> node.\<close>

definition process_method ::
  "(expr \<Rightarrow> string) \<Rightarrow> string \<Rightarrow> arguments \<Rightarrow> stmt list \<Rightarrow> expr list \<Rightarrow> expr option
     \<Rightarrow> class_info \<Rightarrow> class_info" where
  "process_method unparse mname margs body decorator_list returns info =
     (let method_info = \<lparr>name = mname,
                         args = extract_arguments unparse margs,
                         decorators = name_ids decorator_list,
                         return_type = extract_return_type unparse returns\<rparr>
      in if mname = ''__init__''
         then process_init_method unparse body info
         else info\<lparr>methods := methods info @ [method_info]\<rparr>)"

text \<open>\<^verbatim>\<open>_extract_class_details\<close>: one loop over \<^verbatim>\<open>class_node.body\<close>.\<close>

fun extract_class_details :: "(expr \<Rightarrow> string) \<Rightarrow> stmt list \<Rightarrow> class_info \<Rightarrow> class_info" where
  "extract_class_details unparse [] info = info"
| "extract_class_details unparse (FunctionDef mname margs body decorator_list returns # items) info =
     extract_class_details unparse items
       (process_method unparse mname margs body decorator_list returns info)"
| "extract_class_details unparse (Assign targets val # items) info =
     extract_class_details unparse items (process_class_attribute targets val info)"
| "extract_class_details unparse (AnnAssign target annotation val # items) info =
     extract_class_details unparse items
       (process_annotated_attribute unparse target annotation info)"
| "extract_class_details unparse (body_item # items) info =
     extract_class_details unparse items info"

text \<open>
  The exception path. \<^verbatim>\<open>ast.unparse\<close> raises on some expressions that \<^verbatim>\<open>ast.parse\<close>
  accepts (\<^verbatim>\<open>ValueError\<close> on an integer literal beyond the interpreter's digit limit,
  \<^verbatim>\<open>RecursionError\<close> on deep nesting), and nothing below \<^verbatim>\<open>_parse_all_files\<close> catches
  it. \<open>fails e\<close> says that \<^verbatim>\<open>ast.unparse\<close> raises on \<open>e\<close>; \<open>unparse e\<close> is its result
  otherwise. In every class-body statement the calls of \<^verbatim>\<open>ast.unparse\<close> come before the
  statement's writes: \<^verbatim>\<open>_process_method\<close> builds \<^verbatim>\<open>method_info\<close> (the arguments, then the
  return type) before it touches the entry, also for \<^verbatim>\<open>__init__\<close>;
  \<^verbatim>\<open>_process_annotated_attribute\<close> renders the annotation before it stores it; the
  annotation branch of \<^verbatim>\<open>_process_init_method\<close> is never taken. So a statement either
  runs as the functions above say or raises having written nothing.
\<close>

text \<open>\<^verbatim>\<open>_extract_arguments\<close> raises: some parameter of the loop that is rendered fails.\<close>

fun extract_arguments_raises :: "(expr \<Rightarrow> bool) \<Rightarrow> arg list \<Rightarrow> bool" where
  "extract_arguments_raises fails [] = False"
| "extract_arguments_raises fails (Arg a annotation # rest) =
     (if a \<noteq> ''self''
      then (case annotation of
              Some ann \<Rightarrow> fails ann \<or> extract_arguments_raises fails rest
            | None \<Rightarrow> extract_arguments_raises fails rest)
      else extract_arguments_raises fails rest)"

text \<open>\<^verbatim>\<open>_extract_return_type\<close> raises.\<close>

fun extract_return_type_raises :: "(expr \<Rightarrow> bool) \<Rightarrow> expr option \<Rightarrow> bool" where
  "extract_return_type_raises fails (Some returns) = fails returns"
| "extract_return_type_raises fails None = False"

text \<open>\<^verbatim>\<open>_process_method\<close> raises: while it builds \<^verbatim>\<open>method_info\<close>.\<close>

fun process_method_raises :: "(expr \<Rightarrow> bool) \<Rightarrow> arguments \<Rightarrow> expr option \<Rightarrow> bool" where
  "process_method_raises fails (Arguments posonlyargs arglist kwonlyargs) returns =
     (extract_arguments_raises fails arglist \<or> extract_return_type_raises fails returns)"

text \<open>\<^verbatim>\<open>_process_annotated_attribute\<close> raises.\<close>

fun process_annotated_attribute_raises :: "(expr \<Rightarrow> bool) \<Rightarrow> expr \<Rightarrow> expr \<Rightarrow> bool" where
  "process_annotated_attribute_raises fails (Name attr_name) annotation = fails annotation"
| "process_annotated_attribute_raises fails target annotation = False"

text \<open>
  \<^verbatim>\<open>_extract_class_details\<close> with the exception path: the loop over \<^verbatim>\<open>class_node.body\<close>
  stops at the first statement that raises. The result is the entry as the loop left it
  and whether an exception leaves the method.
\<close>

fun extract_class_details_try ::
  "(expr \<Rightarrow> string) \<Rightarrow> (expr \<Rightarrow> bool) \<Rightarrow> stmt list \<Rightarrow> class_info \<Rightarrow> class_info \<times> bool" where
  "extract_class_details_try unparse fails [] info = (info, False)"
| "extract_class_details_try unparse fails
     (FunctionDef mname margs body decorator_list returns # items) info =
     (if process_method_raises fails margs returns then (info, True)
      else extract_class_details_try unparse fails items
             (process_method unparse mname margs body decorator_list returns info))"
| "extract_class_details_try unparse fails (Assign targets val # items) info =
     extract_class_details_try unparse fails items (process_class_attribute targets val info)"
| "extract_class_details_try unparse fails (AnnAssign target annotation val # items) info =
     (if process_annotated_attribute_raises fails target annotation then (info, True)
      else extract_class_details_try unparse fails items
             (process_annotated_attribute unparse target annotation info))"
| "extract_class_details_try unparse fails (body_item # items) info =
     extract_class_details_try unparse fails items info"

text \<open>
  \<^verbatim>\<open>_register_classes\<close>: the loop over the nodes of \<^verbatim>\<open>ast.walk(tree)\<close>. \<open>relpath\<close> is
  \<^verbatim>\<open>_file_path_to_relative_path\<close> (\<^verbatim>\<open>os.path.relpath\<close> against the project path, which
  does not raise on the files that \<^verbatim>\<open>os.walk\<close> finds below that path). The entry and the
  origin are stored before the class body is scanned, and the scan writes into the stored
  entry, so an exception in the scan leaves the class registered with what the scan wrote
  so far; the nodes after it are not visited.
\<close>

fun register_nodes ::
  "(expr \<Rightarrow> string) \<Rightarrow> (expr \<Rightarrow> bool) \<Rightarrow> (string \<Rightarrow> string) \<Rightarrow> string \<Rightarrow> stmt list
     \<Rightarrow> code_read_parser \<Rightarrow> code_read_parser \<times> bool" where
  "register_nodes unparse fails relpath file_path [] self = (self, False)"
| "register_nodes unparse fails relpath file_path (ClassDef class_name bases body # nodes) self =
     (let fresh = \<lparr>attributes = [], methods = [], parent_classes = name_ids bases\<rparr>;
          self1 = self\<lparr>classes_info := dict_set (classes_info self) class_name fresh\<rparr>;
          self2 = self1\<lparr>classes_path :=
                    dict_set (classes_path self1) class_name (relpath file_path)\<rparr>;
          scan = extract_class_details_try unparse fails body fresh;
          self3 = self2\<lparr>classes_info :=
                    dict_set (classes_info self2) class_name (fst scan)\<rparr>
      in if snd scan then (self3, True)
         else register_nodes unparse fails relpath file_path nodes self3)"
| "register_nodes unparse fails relpath file_path (node # nodes) self =
     register_nodes unparse fails relpath file_path nodes self"

definition register_classes ::
  "(expr \<Rightarrow> string) \<Rightarrow> (expr \<Rightarrow> bool) \<Rightarrow> (string \<Rightarrow> string) \<Rightarrow> string \<Rightarrow> module
     \<Rightarrow> code_read_parser \<Rightarrow> code_read_parser \<times> bool" where
  "register_classes unparse fails relpath file_path tree self =
     register_nodes unparse fails relpath file_path (walk tree) self"

text \<open>
  \<^verbatim>\<open>_parse_all_files\<close>: a source unit is its path and what \<^verbatim>\<open>ast.parse\<close> makes of its
  text, \<open>None\<close> when reading or parsing raises. \<^verbatim>\<open>_register_classes\<close> runs inside the same
  \<^verbatim>\<open>try\<close>: when it raises, the \<^verbatim>\<open>except\<close> branch reports the unit and the loop goes on
  with the registry as the unit left it.
\<close>

fun parse_all_files ::
  "(expr \<Rightarrow> string) \<Rightarrow> (expr \<Rightarrow> bool) \<Rightarrow> (string \<Rightarrow> string)
     \<Rightarrow> (string \<times> module option) list \<Rightarrow> code_read_parser \<Rightarrow> code_read_parser" where
  "parse_all_files unparse fails relpath [] self = self"
| "parse_all_files unparse fails relpath ((file_path, Some tree) # py_files) self =
     parse_all_files unparse fails relpath py_files
       (fst (register_classes unparse fails relpath file_path tree self))"
| "parse_all_files unparse fails relpath ((file_path, None) # py_files) self =
     parse_all_files unparse fails relpath py_files self"

text \<open>The registry and the origin index as \<^verbatim>\<open>__init__\<close> leaves them.\<close>

definition new_parser :: code_read_parser where
  "new_parser = \<lparr>classes_path = [], classes_info = []\<rparr>"

section \<open>Vocabulary for the properties of the extraction pass\<close>

text \<open>The entry \<^verbatim>\<open>"name: type-label"\<close> that the specification gives one parameter.\<close>

fun parameter_entry :: "(expr \<Rightarrow> string) \<Rightarrow> arg \<Rightarrow> string" where
  "parameter_entry unparse (Arg n annotation) =
     n @ '': '' @ (case annotation of Some ann \<Rightarrow> unparse ann | None \<Rightarrow> ''Any'')"

fun arg_name :: "arg \<Rightarrow> string" where
  "arg_name (Arg n annotation) = n"

text \<open>
  The positional parameters of a signature, in order: the positional-only ones (before
  \<^verbatim>\<open>/\<close>) and then those of \<^verbatim>\<open>arguments.args\<close>.
\<close>

fun positional_parameters :: "arguments \<Rightarrow> arg list" where
  "positional_parameters (Arguments posonlyargs arglist kwonlyargs) = posonlyargs @ arglist"

text \<open>A class entry with nothing in it yet.\<close>

definition empty_info :: class_info where
  "empty_info = \<lparr>attributes = [], methods = [], parent_classes = []\<rparr>"


text \<open>A node that is a class definition named \<open>n\<close>; a source unit whose walk meets one.\<close>

fun is_class_named :: "string \<Rightarrow> stmt \<Rightarrow> bool" where
  "is_class_named n (ClassDef class_name bases body) = (class_name = n)"
| "is_class_named n s = False"

fun unit_defines :: "string \<Rightarrow> string \<times> module option \<Rightarrow> bool" where
  "unit_defines n (file_path, Some tree) = (\<exists>s \<in> set (walk tree). is_class_named n s)"
| "unit_defines n (file_path, None) = False"

text \<open>
  A class-body statement whose processing raises; a node of the walk at which
  \<^verbatim>\<open>_register_classes\<close> raises (a class definition with such a statement in its body).
\<close>

fun body_item_raises :: "(expr \<Rightarrow> bool) \<Rightarrow> stmt \<Rightarrow> bool" where
  "body_item_raises fails (FunctionDef mname margs body decorator_list returns) =
     process_method_raises fails margs returns"
| "body_item_raises fails (AnnAssign target annotation val) =
     process_annotated_attribute_raises fails target annotation"
| "body_item_raises fails s = False"

fun node_raises :: "(expr \<Rightarrow> bool) \<Rightarrow> stmt \<Rightarrow> bool" where
  "node_raises fails (ClassDef class_name bases body) =
     (\<exists>item \<in> set body. body_item_raises fails item)"
| "node_raises fails s = False"

text \<open>
  An instance of \<open>fails\<close> for concrete inputs: \<^verbatim>\<open>ast.unparse\<close> raises \<^verbatim>\<open>ValueError\<close> on an
  integer constant of more than 4300 decimal digits (written in the source as a
  hexadecimal literal, which \<^verbatim>\<open>ast.parse\<close> accepts), and on nothing else.
\<close>

definition int_max_str_digits :: nat where
  "int_max_str_digits = 4300"

fun digits_limit_fails :: "expr \<Rightarrow> bool" where
  "digits_limit_fails (Constant (CInt i)) = (10 ^ int_max_str_digits \<le> \<bar>i\<bar>)"
| "digits_limit_fails e = False"

section \<open>Python values at the model boundary\<close>

text \<open>
  \<^verbatim>\<open>JSONSaver\<close> and \<^verbatim>\<open>UMLCreator\<close> are handed a \<^verbatim>\<open>classes_info\<close> object whose shape they
  check at run time, so it is modelled as a dynamically typed value: \<^verbatim>\<open>None\<close>, a
  boolean, an integer, a string, a list or a dict with string keys (what \<^verbatim>\<open>json.load\<close>
  returns, floats left out: no operation below inspects a number).
\<close>

datatype json =
    JNull
  | JBool bool
  | JInt int
  | JStr string
  | JList "json list"
  | JDict "(string \<times> json) list"

text \<open>
  Exceptions. A \<^verbatim>\<open>raise\<close> of the source carries its message; an exception the
  interpreter raises itself carries the empty message, except that \<open>AttributeError\<close>
  carries the name of the attribute and \<open>KeyError\<close> the key. The \<open>KeyError\<close> of the
  validators carries the class name and the missing keys (which Python renders as a set).
\<close>

datatype error =
    ValueError string
  | TypeError string
  | KeyError string "string list"
  | AttributeError string
  | FileNotFoundError string
  | CalledProcessError

text \<open>Truth value of an object, as in \<^verbatim>\<open>if not x\<close>.\<close>

fun truthy :: "json \<Rightarrow> bool" where
  "truthy JNull = False"
| "truthy (JBool b) = b"
| "truthy (JInt i) = (i \<noteq> 0)"
| "truthy (JStr s) = (s \<noteq> [])"
| "truthy (JList xs) = (xs \<noteq> [])"
| "truthy (JDict d) = (d \<noteq> [])"

text \<open>\<^verbatim>\<open>isinstance(x, dict)\<close>.\<close>

fun is_dict :: "json \<Rightarrow> bool" where
  "is_dict (JDict d) = True"
| "is_dict v = False"

text \<open>\<^verbatim>\<open>x.keys()\<close> and \<^verbatim>\<open>x.items()\<close>: only a dict has the methods.\<close>

fun py_keys :: "json \<Rightarrow> error + string list" where
  "py_keys (JDict d) = Inr (map fst d)"
| "py_keys v = Inl (AttributeError ''keys'')"

fun py_items :: "json \<Rightarrow> error + (string \<times> json) list" where
  "py_items (JDict d) = Inr d"
| "py_items v = Inl (AttributeError ''items'')"

text \<open>\<^verbatim>\<open>x[k]\<close> with a string key: a lookup in a dict, a \<^verbatim>\<open>TypeError\<close> on anything else.\<close>

fun py_getitem :: "json \<Rightarrow> string \<Rightarrow> error + json" where
  "py_getitem (JDict d) k =
     (case map_of d k of Some v \<Rightarrow> Inr v | None \<Rightarrow> Inl (KeyError k []))"
| "py_getitem v k = Inl (TypeError '''')"

text \<open>
  \<^verbatim>\<open>for y in x\<close>: the elements of a list, the keys of a dict, the characters of a
  string; nothing else is iterable.
\<close>

fun py_iter :: "json \<Rightarrow> error + json list" where
  "py_iter (JList xs) = Inr xs"
| "py_iter (JDict d) = Inr (map (\<lambda>kv. JStr (fst kv)) d)"
| "py_iter (JStr s) = Inr (map (\<lambda>c. JStr [c]) s)"
| "py_iter v = Inl (TypeError '''')"

text \<open>\<^verbatim>\<open>sep.join(xs)\<close> and the line feed.\<close>

definition nl :: string where
  "nl = [CHR 0x0A]"

fun join :: "string \<Rightarrow> string list \<Rightarrow> string" where
  "join sep [] = []"
| "join sep [x] = x"
| "join sep (x # y # ys) = x @ sep @ join sep (y # ys)"

section \<open>The outside world\<close>

text \<open>
  The library and the operating system are parameters: \<open>json_dumps\<close> is \<^verbatim>\<open>json.dump\<close> with
  \<^verbatim>\<open>indent=4\<close>, \<open>json_loads\<close> is \<^verbatim>\<open>json.load\<close> (\<open>None\<close> when it raises
  \<^verbatim>\<open>JSONDecodeError\<close>), \<open>py_str\<close> is \<^verbatim>\<open>str\<close> on a value that is not a string, and
  \<open>run_dot\<close> is the Graphviz binary: the image for a graph description, or \<open>None\<close> when it
  exits with a non-zero status.
\<close>

record libs =
  json_dumps :: "json \<Rightarrow> string"
  json_loads :: "string \<Rightarrow> json option"
  py_str :: "json \<Rightarrow> string"
  run_dot :: "string \<Rightarrow> string option"

text \<open>
  What the program does to the world: the files it leaves and the trace of what it opened,
  ran and printed. Opening a file for writing is taken to succeed.
\<close>

datatype event =
    OpenRead string
  | OpenWrite string
  | Exec "string list"
  | Print string

record world =
  files :: "string \<Rightarrow> string option"
  trace :: "event list"

text \<open>A value interpolated into an f-string.\<close>

fun fmt :: "libs \<Rightarrow> json \<Rightarrow> string" where
  "fmt L (JStr s) = s"
| "fmt L v = py_str L v"

section \<open>\<^verbatim>\<open>JSONSaver\<close>\<close>

text \<open>The attributes \<^verbatim>\<open>__init__\<close> sets: \<^verbatim>\<open>classes_info\<close>, \<^verbatim>\<open>json_path\<close>, \<^verbatim>\<open>VALID_ENCODING\<close>.\<close>

record json_saver =
  saver_classes_info :: json
  saver_json_path :: string
  saver_encoding :: string

definition required_keys :: "string list" where
  "required_keys = [''attributes'', ''methods'', ''parent_classes'']"

text \<open>\<^verbatim>\<open>JSONSaver._validate_classes_info\<close>: the loop over \<^verbatim>\<open>self.classes_info.items()\<close>.\<close>

fun JSONSaver_validate_items :: "(string \<times> json) list \<Rightarrow> error + bool" where
  "JSONSaver_validate_items [] = Inr True"
| "JSONSaver_validate_items ((cls, info) # rest) =
     (case py_keys info of
        Inl e \<Rightarrow> Inl e
      | Inr keys \<Rightarrow>
          if \<not> set required_keys \<subseteq> set keys
          then Inl (KeyError cls (filter (\<lambda>k. k \<notin> set keys) required_keys))
          else (case py_getitem info ''attributes'' of
                  Inl e \<Rightarrow> Inl e
                | Inr attrs \<Rightarrow>
                    if \<not> is_dict attrs
                    then Inl (TypeError (cls @ '' attributes must be a dict.''))
                    else (case py_getitem info ''methods'' of
                            Inl e \<Rightarrow> Inl e
                          | Inr ms \<Rightarrow>
                              (case py_iter ms of
                                 Inl e \<Rightarrow> Inl e
                               | Inr elems \<Rightarrow>
                                   if \<not> list_all is_dict elems
                                   then Inl (TypeError (cls @ '' methods must be a list of dict.''))
                                   else JSONSaver_validate_items rest))))"

definition JSONSaver_validate_classes_info :: "json_saver \<Rightarrow> error + bool" where
  "JSONSaver_validate_classes_info self =
     (if \<not> truthy (saver_classes_info self) then Inl (ValueError ''classes_info is empty.'')
      else if \<not> is_dict (saver_classes_info self)
      then Inl (TypeError ''classes_info must be a dict.'')
      else (case py_items (saver_classes_info self) of
              Inl e \<Rightarrow> Inl e
            | Inr its \<Rightarrow> JSONSaver_validate_items its))"

text \<open>
  The entries of \<^verbatim>\<open>classes_info\<close> that the loop above rejects: an entry that is not a
  dict, lacks a required key, has an \<^verbatim>\<open>attributes\<close> that is not a dict, or has a
  \<^verbatim>\<open>methods\<close> that cannot be iterated or yields an element that is not a dict.
\<close>

fun entry_rejected :: "json \<Rightarrow> bool" where
  "entry_rejected (JDict kvs) =
     (\<not> set required_keys \<subseteq> fst ` set kvs
      \<or> (case map_of kvs ''attributes'' of Some a \<Rightarrow> \<not> is_dict a | None \<Rightarrow> True)
      \<or> (case map_of kvs ''methods'' of
            Some ms \<Rightarrow> (case py_iter ms of Inl e \<Rightarrow> True | Inr elems \<Rightarrow> \<not> list_all is_dict elems)
          | None \<Rightarrow> True))"
| "entry_rejected v = True"

text \<open>\<^verbatim>\<open>JSONSaver.save_to_json\<close>.\<close>

definition save_to_json :: "libs \<Rightarrow> json_saver \<Rightarrow> world \<Rightarrow> (error + unit) \<times> world" where
  "save_to_json L self w =
     (case JSONSaver_validate_classes_info self of
        Inl e \<Rightarrow> (Inl e, w)
      | Inr ok \<Rightarrow>
          if \<not> ok then (Inl (ValueError ''classes_info is not valid.''), w)
          else (Inr (),
                w\<lparr>files := (files w)(saver_json_path self \<mapsto> json_dumps L (saver_classes_info self)),
                  trace := trace w @ [OpenWrite (saver_json_path self),
                                      Print (''Saved to json file'' @ saver_json_path self @ ''.'')]\<rparr>))"

section \<open>\<^verbatim>\<open>UMLCreator\<close>\<close>

text \<open>
  \<^verbatim>\<open>UMLCreator.__init__\<close> does not call the initializer of \<^verbatim>\<open>JSONSaver\<close>: it sets
  \<^verbatim>\<open>VALID_ENCODING\<close>, \<^verbatim>\<open>uml_path\<close>, the template, and \<^verbatim>\<open>classes_info\<close> only on two of
  its paths. \<open>creator_classes_info = None\<close> is the object without the attribute.
\<close>

record uml_creator =
  creator_encoding :: string
  creator_uml_path :: string
  creator_classes_info :: "json option"

text \<open>\<^verbatim>\<open>self.class_template.format(class_name=..., attributes=..., methods=...)\<close>.\<close>

definition class_template_format :: "string \<Rightarrow> string \<Rightarrow> string \<Rightarrow> string" where
  "class_template_format class_name attrs meths =
     nl @ ''        '' @ class_name @ '' ['' @ nl @
     ''            shape=plaintext'' @ nl @
     ''            label=<'' @ nl @
     ''                <table border=\"0\" cellborder=\"1\" cellspacing=\"0\">'' @ nl @
     ''                    <tr><td><b>'' @ class_name @ ''</b></td></tr>'' @ nl @
     ''                    '' @ attrs @ nl @
     ''                    '' @ meths @ nl @
     ''                </table>'' @ nl @
     ''            >'' @ nl @
     ''        ];'' @ nl @
     ''        ''"

text \<open>The three f-strings of \<^verbatim>\<open>generate_dot\<close>, on the strings interpolated.\<close>

definition attribute_row :: "string \<Rightarrow> string \<Rightarrow> string" where
  "attribute_row attr_name attr_type =
     ''<tr><td align=\"left\">- '' @ attr_name @ '': '' @ attr_type @ ''</td></tr>''"

definition method_row :: "string \<Rightarrow> string \<Rightarrow> string" where
  "method_row mname rtype =
     ''<tr><td align=\"left\">+ '' @ mname @ ''(): '' @ rtype @ ''</td></tr>''"

definition edge_statement :: "string \<Rightarrow> string \<Rightarrow> string" where
  "edge_statement parent cls = parent @ '' -> '' @ cls @ '' [arrowhead=onormal];''"

text \<open>\<^verbatim>\<open>load_from_json\<close>.\<close>

definition load_from_json :: "libs \<Rightarrow> string \<Rightarrow> world \<Rightarrow> (error + json) \<times> world" where
  "load_from_json L json_path w =
     (let w' = w\<lparr>trace := trace w @ [OpenRead json_path]\<rparr>
      in case files w json_path of
           None \<Rightarrow> (Inl (FileNotFoundError ''json file not found.''), w')
         | Some text \<Rightarrow>
             (case json_loads L text of
                None \<Rightarrow> (Inl (ValueError ''json file is not a valid json.''), w')
              | Some data \<Rightarrow>
                  if \<not> is_dict data then (Inl (TypeError ''json file must be a dict.''), w')
                  else (Inr data, w')))"

text \<open>\<^verbatim>\<open>UMLCreator._validate_classes_info\<close>; it returns \<^verbatim>\<open>None\<close>.\<close>

fun UMLCreator_validate_items :: "(string \<times> json) list \<Rightarrow> error + json" where
  "UMLCreator_validate_items [] = Inr JNull"
| "UMLCreator_validate_items ((cls, info) # rest) =
     (case py_keys info of
        Inl e \<Rightarrow> Inl e
      | Inr keys \<Rightarrow>
          if \<not> set required_keys \<subseteq> set keys
          then Inl (KeyError cls (filter (\<lambda>k. k \<notin> set keys) required_keys))
          else UMLCreator_validate_items rest)"

definition UMLCreator_validate_classes_info :: "uml_creator \<Rightarrow> error + json" where
  "UMLCreator_validate_classes_info self =
     (case creator_classes_info self of
        None \<Rightarrow> Inl (AttributeError ''classes_info'')
      | Some ci \<Rightarrow>
          if \<not> is_dict ci then Inl (TypeError ''classes_info must be a dict.'')
          else (case py_items ci of
                  Inl e \<Rightarrow> Inl e
                | Inr its \<Rightarrow> UMLCreator_validate_items its))"

text \<open>
  \<^verbatim>\<open>UMLCreator.__init__\<close>, with its arguments \<^verbatim>\<open>classes_info\<close> (default \<^verbatim>\<open>None\<close>),
  \<^verbatim>\<open>json_path\<close> (default \<^verbatim>\<open>None\<close>), \<^verbatim>\<open>encoding\<close> and \<^verbatim>\<open>uml_path\<close>.
\<close>

fun path_given :: "string option \<Rightarrow> bool" where
  "path_given None = False"
| "path_given (Some p) = (p \<noteq> [])"

definition UMLCreator_init ::
  "libs \<Rightarrow> json \<Rightarrow> string option \<Rightarrow> string \<Rightarrow> string \<Rightarrow> world
     \<Rightarrow> (error + uml_creator) \<times> world" where
  "UMLCreator_init L classes_info_arg json_path encoding uml_path w =
     (let self = \<lparr>creator_encoding = encoding, creator_uml_path = uml_path,
                  creator_classes_info = None\<rparr>
      in if truthy classes_info_arg \<and> path_given json_path
         then (Inl (ValueError ''Only to choose one data source, classes_info or json_path.''), w)
         else if path_given json_path
         then (case json_path of
                 None \<Rightarrow> (Inr self, w)
               | Some p \<Rightarrow>
                   (case load_from_json L p w of
                      (Inl e, w') \<Rightarrow> (Inl e, w')
                    | (Inr data, w') \<Rightarrow> (Inr (self\<lparr>creator_classes_info := Some data\<rparr>), w')))
         else if truthy classes_info_arg
         then (let self' = self\<lparr>creator_classes_info :=
                             Some (if truthy classes_info_arg then classes_info_arg else JDict [])\<rparr>
               in case UMLCreator_validate_classes_info self' of
                    Inl e \<Rightarrow> (Inl e, w)
                  | Inr r \<Rightarrow> (Inr self', w))
         else (Inr self, w))"

text \<open>\<^verbatim>\<open>generate_dot\<close>: the generator of the method rows of one class.\<close>

fun method_rows :: "libs \<Rightarrow> json list \<Rightarrow> error + string list" where
  "method_rows L [] = Inr []"
| "method_rows L (m # ms) =
     (case py_getitem m ''name'' of
        Inl e \<Rightarrow> Inl e
      | Inr mname \<Rightarrow>
          (case py_getitem m ''return_type'' of
             Inl e \<Rightarrow> Inl e
           | Inr rtype \<Rightarrow>
               (case method_rows L ms of
                  Inl e \<Rightarrow> Inl e
                | Inr rows \<Rightarrow> Inr (method_row (fmt L mname) (fmt L rtype) # rows))))"

text \<open>\<^verbatim>\<open>generate_dot\<close>: the first loop, which appends one node block per class to \<open>dot\<close>.\<close>

fun node_loop :: "libs \<Rightarrow> (string \<times> json) list \<Rightarrow> string list \<Rightarrow> error + string list" where
  "node_loop L [] dot = Inr dot"
| "node_loop L ((cls, info) # rest) dot =
     (case py_getitem info ''attributes'' of
        Inl e \<Rightarrow> Inl e
      | Inr a \<Rightarrow>
          (case py_items a of
             Inl e \<Rightarrow> Inl e
           | Inr its \<Rightarrow>
               (let attrs = join nl (map (\<lambda>kv. attribute_row (fst kv) (fmt L (snd kv))) its)
                in case py_getitem info ''methods'' of
                     Inl e \<Rightarrow> Inl e
                   | Inr ms \<Rightarrow>
                       (case py_iter ms of
                          Inl e \<Rightarrow> Inl e
                        | Inr elems \<Rightarrow>
                            (case method_rows L elems of
                               Inl e \<Rightarrow> Inl e
                             | Inr rows \<Rightarrow>
                                 node_loop L rest
                                   (dot @ [class_template_format cls attrs (join nl rows)]))))))"

text \<open>\<^verbatim>\<open>generate_dot\<close>: the second loop, which appends the inheritance edges.\<close>

fun edge_loop :: "libs \<Rightarrow> (string \<times> json) list \<Rightarrow> string list \<Rightarrow> error + string list" where
  "edge_loop L [] dot = Inr dot"
| "edge_loop L ((cls, info) # rest) dot =
     (case py_getitem info ''parent_classes'' of
        Inl e \<Rightarrow> Inl e
      | Inr ps \<Rightarrow>
          (case py_iter ps of
             Inl e \<Rightarrow> Inl e
           | Inr parents \<Rightarrow>
               edge_loop L rest
                 (dot @ map (\<lambda>parent. edge_statement (fmt L parent) cls) parents)))"

definition generate_dot :: "libs \<Rightarrow> uml_creator \<Rightarrow> error + string" where
  "generate_dot L self =
     (case creator_classes_info self of
        None \<Rightarrow> Inl (AttributeError ''classes_info'')
      | Some ci \<Rightarrow>
          (case py_items ci of
             Inl e \<Rightarrow> Inl e
           | Inr its \<Rightarrow>
               (case node_loop L its [''digraph G {''] of
                  Inl e \<Rightarrow> Inl e
                | Inr dot \<Rightarrow>
                    (case edge_loop L its dot of
                       Inl e \<Rightarrow> Inl e
                     | Inr dot' \<Rightarrow> Inr (join nl (dot' @ [''}'']))))))"

text \<open>\<^verbatim>\<open>render_dot\<close>: writes \<^verbatim>\<open>temp.dot\<close> and runs the Graphviz binary on it.\<close>

definition render_dot :: "libs \<Rightarrow> string \<Rightarrow> string \<Rightarrow> world \<Rightarrow> (error + unit) \<times> world" where
  "render_dot L dot_code output_file w =
     (let w1 = w\<lparr>files := (files w)(''temp.dot'' \<mapsto> dot_code),
                 trace := trace w @ [OpenWrite ''temp.dot'',
                   Exec [''dot'', ''-Tpng'', ''temp.dot'', ''-o'', output_file, ''-Grankdir=BT'']]\<rparr>
      in case run_dot L dot_code of
           None \<Rightarrow> (Inl CalledProcessError, w1)
         | Some png \<Rightarrow>
             (Inr (), w1\<lparr>files := (files w1)(output_file \<mapsto> png),
                        trace := trace w1 @ [Print (''Saved to '' @ output_file @ ''.'')]\<rparr>))"

text \<open>\<^verbatim>\<open>create_uml\<close>.\<close>

definition create_uml :: "libs \<Rightarrow> uml_creator \<Rightarrow> world \<Rightarrow> (error + unit) \<times> world" where
  "create_uml L self w =
     (case creator_classes_info self of
        None \<Rightarrow> (Inl (AttributeError ''classes_info''), w)
      | Some ci \<Rightarrow>
          if \<not> truthy ci then (Inl (ValueError ''classes_info is empty.''), w)
          else (case generate_dot L self of
                  Inl e \<Rightarrow> (Inl e, w)
                | Inr dot_code \<Rightarrow> render_dot L dot_code (creator_uml_path self) w))"

section \<open>The registry as the object handed to \<^verbatim>\<open>JSONSaver\<close> and \<^verbatim>\<open>UMLCreator\<close>\<close>

text \<open>
  \<^verbatim>\<open>main\<close> passes \<^verbatim>\<open>cparser.classes_info\<close> on as it is. These functions give the nested
  dicts and lists that the records of the extraction pass stand for.
\<close>

definition method_to_json :: "method_info \<Rightarrow> json" where
  "method_to_json m =
     JDict [(''name'', JStr (name m)),
            (''args'', JList (map JStr (args m))),
            (''decorators'', JList (map JStr (decorators m))),
            (''return_type'', JStr (return_type m))]"

definition class_to_json :: "class_info \<Rightarrow> json" where
  "class_to_json c =
     JDict [(''attributes'', JDict (map (\<lambda>kv. (fst kv, JStr (snd kv))) (attributes c))),
            (''methods'', JList (map method_to_json (methods c))),
            (''parent_classes'', JList (map JStr (parent_classes c)))]"

definition registry_to_json :: "(string \<times> class_info) list \<Rightarrow> json" where
  "registry_to_json reg = JDict (map (\<lambda>kv. (fst kv, class_to_json (snd kv))) reg)"

text \<open>
  The node block of one class and the edges of one class, written out from the
  specification's description and the text the renderer is to receive, independently of
  the template and the f-strings above: the class name, a table whose heading is the
  class name in bold, one row \<^verbatim>\<open>- name: type-label\<close> per attribute in mapping order, one
  row \<^verbatim>\<open>+ name(): returnTypeLabel\<close> per method in sequence order; one edge
  \<^verbatim>\<open>parent -> child [arrowhead=onormal];\<close> per parent name in list order.
\<close>

definition node_block :: "string \<times> class_info \<Rightarrow> string" where
  "node_block kc =
     [CHR 0x0A] @ ''        '' @ fst kc @ '' ['' @ [CHR 0x0A] @
     ''            shape=plaintext'' @ [CHR 0x0A] @
     ''            label=<'' @ [CHR 0x0A] @
     ''                <table border=\"0\" cellborder=\"1\" cellspacing=\"0\">'' @ [CHR 0x0A] @
     ''                    <tr><td><b>'' @ fst kc @ ''</b></td></tr>'' @ [CHR 0x0A] @
     ''                    '' @
       join [CHR 0x0A]
         (map (\<lambda>kv. ''<tr><td align=\"left\">- '' @ fst kv @ '': '' @ snd kv @ ''</td></tr>'')
            (attributes (snd kc))) @ [CHR 0x0A] @
     ''                    '' @
       join [CHR 0x0A]
         (map (\<lambda>m. ''<tr><td align=\"left\">+ '' @ name m @ ''(): '' @ return_type m
                     @ ''</td></tr>'')
            (methods (snd kc))) @ [CHR 0x0A] @
     ''                </table>'' @ [CHR 0x0A] @
     ''            >'' @ [CHR 0x0A] @
     ''        ];'' @ [CHR 0x0A] @
     ''        ''"

definition class_edges :: "string \<times> class_info \<Rightarrow> string list" where
  "class_edges kc =
     map (\<lambda>parent. parent @ '' -> '' @ fst kc @ '' [arrowhead=onormal];'')
       (parent_classes (snd kc))"

text \<open>
  A library and a world for concrete inputs: nothing parses as JSON, every value that is
  not a string prints as the empty string, the renderer returns its input; no file exists.
\<close>

definition plain_libs :: libs where
  "plain_libs = \<lparr>json_dumps = (\<lambda>j. []), json_loads = (\<lambda>s. None),
                  py_str = (\<lambda>j. []), run_dot = (\<lambda>d. Some d)\<rparr>"

definition empty_world :: world where
  "empty_world = \<lparr>files = (\<lambda>p. None), trace = []\<rparr>"

section \<open>Lemmas about the extraction pass\<close>

lemma extract_arguments_loop_eq:
  "extract_arguments_loop U as acc =
     acc @ map (parameter_entry U) (filter (\<lambda>a. arg_name a \<noteq> ''self'') as)"
proof (induction as arbitrary: acc)
  case Nil
  show ?case by simp
next
  case (Cons a as)
  obtain n ann where a: "a = Arg n ann" by (cases a)
  show ?case
    unfolding a by (simp add: Cons.IH)
qed

lemma dict_get_dict_set: "dict_get (dict_set d k v) x = (if x = k then Some v else dict_get d x)"
  by (induction d) (auto simp add: dict_get_def)

lemma methods_process_init_targets [simp]: "methods (process_init_targets U s ts info) = methods info"
  by (induction U s ts info rule: process_init_targets.induct) (simp_all add: Let_def)

lemma methods_process_init_method [simp]: "methods (process_init_method U body info) = methods info"
  by (induction U body info rule: process_init_method.induct) simp_all

lemma methods_process_class_attribute [simp]: "methods (process_class_attribute ts v info) = methods info"
  by (induction ts v info rule: process_class_attribute.induct) (simp_all add: Let_def)

lemma methods_process_annotated_attribute [simp]: "methods (process_annotated_attribute U t a info) = methods info"
  by (induction U t a info rule: process_annotated_attribute.induct) simp_all















lemma dict_get_empty_info [simp]: "dict_get (attributes empty_info) x = None"
  by (simp add: empty_info_def dict_get_def)




lemma dict_keys_dict_set:
  "set (dict_keys (dict_set d k v)) = insert k (set (dict_keys d))"
proof (induction d)
  case Nil
  show ?case by (simp add: dict_keys_def)
next
  case (Cons p d)
  obtain k' v' where p: "p = (k', v')" by (cases p)
  show ?case
    using Cons.IH by (cases "k' = k") (auto simp add: p dict_keys_def)
qed

lemma distinct_dict_set:
  "distinct (dict_keys d) \<Longrightarrow> distinct (dict_keys (dict_set d k v))"
proof (induction d)
  case Nil
  show ?case by (simp add: dict_keys_def)
next
  case (Cons p d)
  obtain k' v' where p: "p = (k', v')" by (cases p)
  have "distinct (dict_keys d)" and "k' \<notin> set (dict_keys d)"
    using Cons.prems by (simp_all add: p dict_keys_def)
  then show ?case
    using Cons.IH dict_keys_dict_set [of d k v] by (auto simp add: p dict_keys_def)
qed

lemma one_entry_per_key:
  "distinct (dict_keys d) \<Longrightarrow> dict_get d k = Some v \<Longrightarrow>
     length (filter (\<lambda>e. fst e = k) d) = 1"
proof (induction d)
  case Nil
  then show ?case by (simp add: dict_get_def)
next
  case (Cons p d)
  obtain k' v' where p: "p = (k', v')" by (cases p)
  show ?case
  proof (cases "k' = k")
    case True
    then have "k \<notin> fst ` set d" using Cons.prems(1) by (simp add: p dict_keys_def)
    then have "filter (\<lambda>e. fst e = k) d = []"
      by (auto simp add: filter_empty_conv)
    then show ?thesis using True by (simp add: p)
  next
    case False
    then show ?thesis using Cons by (simp add: p dict_keys_def dict_get_def)
  qed
qed

lemma extract_class_details_try_no_raise:
  "\<forall>item \<in> set body. \<not> body_item_raises fails item \<Longrightarrow>
     extract_class_details_try U fails body info = (extract_class_details U body info, False)"
proof (induction body arbitrary: info)
  case Nil
  show ?case by simp
next
  case (Cons item body)
  have rest: "\<forall>i \<in> set body. \<not> body_item_raises fails i" using Cons.prems by simp
  have this_one: "\<not> body_item_raises fails item" using Cons.prems by simp
  show ?case using this_one by (cases item) (simp_all add: Cons.IH [OF rest])
qed

lemma register_nodes_no_raise:
  "\<forall>s \<in> set xs. \<not> node_raises fails s \<Longrightarrow>
     register_nodes U fails r p (xs @ ys) st =
       register_nodes U fails r p ys (fst (register_nodes U fails r p xs st))"
proof (induction xs arbitrary: st)
  case Nil
  show ?case by simp
next
  case (Cons x xs)
  have rest: "\<forall>s \<in> set xs. \<not> node_raises fails s" using Cons.prems by simp
  show ?case
  proof (cases x)
    case (ClassDef c bases body)
    then have "\<forall>item \<in> set body. \<not> body_item_raises fails item"
      using Cons.prems by simp
    then show ?thesis unfolding ClassDef
      by (simp add: Let_def extract_class_details_try_no_raise Cons.IH [OF rest])
  qed (simp_all add: Cons.IH [OF rest])
qed

lemma register_nodes_distinct:
  "distinct (dict_keys (classes_info st)) \<Longrightarrow>
     distinct (dict_keys (classes_info (fst (register_nodes U fails r p nodes st))))"
proof (induction nodes arbitrary: st)
  case Nil
  then show ?case by simp
next
  case (Cons x xs)
  show ?case
  proof (cases x)
    case (ClassDef c bases body)
    let ?fresh = "\<lparr>attributes = [], methods = [], parent_classes = name_ids bases\<rparr>"
    let ?scan = "extract_class_details_try U fails body ?fresh"
    let ?st3 = "st\<lparr>classes_path := dict_set (classes_path st) c (r p),
                    classes_info := dict_set (dict_set (classes_info st) c ?fresh) c (fst ?scan)\<rparr>"
    have d3: "distinct (dict_keys (classes_info ?st3))"
      by (simp add: distinct_dict_set Cons.prems)
    show ?thesis
    proof (cases "snd ?scan")
      case True
      then show ?thesis unfolding ClassDef using d3 by (simp add: Let_def)
    next
      case False
      then show ?thesis unfolding ClassDef using Cons.IH [OF d3] by (simp add: Let_def)
    qed
  qed (use Cons in simp_all)
qed

lemma register_nodes_other:
  "\<forall>s \<in> set nodes. \<not> is_class_named n s \<Longrightarrow>
     dict_get (classes_info (fst (register_nodes U fails r p nodes st))) n =
       dict_get (classes_info st) n
   \<and> dict_get (classes_path (fst (register_nodes U fails r p nodes st))) n =
       dict_get (classes_path st) n"
proof (induction nodes arbitrary: st)
  case Nil
  then show ?case by simp
next
  case (Cons x xs)
  have rest: "\<forall>s \<in> set xs. \<not> is_class_named n s" using Cons.prems by simp
  show ?case
  proof (cases x)
    case (ClassDef c bases body)
    then have "c \<noteq> n" using Cons.prems by simp
    then show ?thesis unfolding ClassDef
      by (simp add: Let_def Cons.IH [OF rest] dict_get_dict_set)
  qed (simp_all add: Cons.IH [OF rest])
qed

lemma register_nodes_class:
  assumes "\<forall>s \<in> set post. \<not> is_class_named n s"
  shows "dict_get (classes_info
           (fst (register_nodes U fails r p (ClassDef n bases body # post) st))) n =
           Some (fst (extract_class_details_try U fails body
                        \<lparr>attributes = [], methods = [], parent_classes = name_ids bases\<rparr>))
       \<and> dict_get (classes_path
           (fst (register_nodes U fails r p (ClassDef n bases body # post) st))) n = Some (r p)"
  using register_nodes_other [OF assms, of U fails r p]
  by (simp add: Let_def dict_get_dict_set)

lemma parse_all_files_append:
  "parse_all_files U fails r (xs @ ys) st =
     parse_all_files U fails r ys (parse_all_files U fails r xs st)"
  by (induction U fails r xs st rule: parse_all_files.induct) simp_all

lemma parse_all_files_distinct:
  "distinct (dict_keys (classes_info st)) \<Longrightarrow>
     distinct (dict_keys (classes_info (parse_all_files U fails r units st)))"
  by (induction U fails r units st rule: parse_all_files.induct)
     (simp_all add: register_classes_def register_nodes_distinct)

lemma parse_all_files_other:
  "\<forall>u \<in> set units. \<not> unit_defines n u \<Longrightarrow>
     dict_get (classes_info (parse_all_files U fails r units st)) n = dict_get (classes_info st) n
   \<and> dict_get (classes_path (parse_all_files U fails r units st)) n = dict_get (classes_path st) n"
  by (induction U fails r units st rule: parse_all_files.induct)
     (simp_all add: register_classes_def register_nodes_other)


section \<open>Lemmas about the diagram description\<close>

lemma method_rows_typed:
  "method_rows L (map method_to_json ms) =
     Inr (map (\<lambda>m. method_row (name m) (return_type m)) ms)"
  by (induction ms) (simp_all add: method_to_json_def)

lemma attribute_rows_typed:
  "map (\<lambda>kv. attribute_row (fst kv) (fmt L (snd kv))) (map (\<lambda>kv. (fst kv, JStr (snd kv))) as) =
     map (\<lambda>kv. attribute_row (fst kv) (snd kv)) as"
  by simp

lemma node_loop_typed:
  "node_loop L (map (\<lambda>kv. (fst kv, class_to_json (snd kv))) reg) dot =
     Inr (dot @ map node_block reg)"
proof (induction reg arbitrary: dot)
  case Nil
  show ?case by simp
next
  case (Cons kc reg)
  obtain k c where kc: "kc = (k, c)" by (cases kc)
  have block: "class_template_format k
         (join nl (map (\<lambda>kv. attribute_row (fst kv) (snd kv)) (attributes c)))
         (join nl (map (\<lambda>m. method_row (name m) (return_type m)) (methods c))) =
       node_block (k, c)"
    by (simp add: class_template_format_def node_block_def nl_def attribute_row_def
          method_row_def)
  have "node_loop L ((k, class_to_json c) # map (\<lambda>kv. (fst kv, class_to_json (snd kv))) reg) dot =
          node_loop L (map (\<lambda>kv. (fst kv, class_to_json (snd kv))) reg) (dot @ [node_block (k, c)])"
    by (simp add: class_to_json_def method_rows_typed o_def block)
  then show ?case unfolding kc by (simp add: Cons.IH)
qed

lemma edge_loop_typed:
  "edge_loop L (map (\<lambda>kv. (fst kv, class_to_json (snd kv))) reg) dot =
     Inr (dot @ concat (map class_edges reg))"
proof (induction reg arbitrary: dot)
  case Nil
  show ?case by simp
next
  case (Cons kc reg)
  obtain k c where kc: "kc = (k, c)" by (cases kc)
  have "edge_loop L ((k, class_to_json c) # map (\<lambda>kv. (fst kv, class_to_json (snd kv))) reg) dot =
          edge_loop L (map (\<lambda>kv. (fst kv, class_to_json (snd kv))) reg) (dot @ class_edges (k, c))"
    by (simp add: class_to_json_def class_edges_def edge_statement_def o_def)
  then show ?case unfolding kc by (simp add: Cons.IH)
qed

lemma generate_dot_typed:
  "generate_dot L (self\<lparr>creator_classes_info := Some (registry_to_json reg)\<rparr>) =
     Inr (join [CHR 0x0A]
            ([''digraph G {''] @ map node_block reg @ concat (map class_edges reg) @ [''}'']))"
  by (simp add: generate_dot_def registry_to_json_def node_loop_typed edge_loop_typed nl_def)

lemma validate_items_typed:
  "UMLCreator_validate_items (map (\<lambda>kv. (fst kv, class_to_json (snd kv))) reg) = Inr JNull"
  by (induction reg) (simp_all add: class_to_json_def required_keys_def)

lemma init_typed:
  "reg \<noteq> [] \<Longrightarrow>
   UMLCreator_init L (registry_to_json reg) None enc up w =
     (Inr \<lparr>creator_encoding = enc, creator_uml_path = up,
           creator_classes_info = Some (registry_to_json reg)\<rparr>, w)"
  by (simp add: UMLCreator_init_def UMLCreator_validate_classes_info_def registry_to_json_def
        validate_items_typed)

lemma length_class_edges:
  "length (concat (map class_edges reg)) = sum_list (map (\<lambda>kc. length (parent_classes (snd kc))) reg)"
  by (induction reg) (simp_all add: class_edges_def)

lemma create_uml_empty_registry:
  "create_uml L \<lparr>creator_encoding = enc, creator_uml_path = up,
                  creator_classes_info = Some (JDict [])\<rparr> w =
     (Inl (ValueError ''classes_info is empty.''), w)"
  by (simp add: create_uml_def)

lemma save_to_json_validation_error:
  "JSONSaver_validate_classes_info self = Inl e \<Longrightarrow> save_to_json L self w = (Inl e, w)"
  by (simp add: save_to_json_def)

lemma validate_items_step:
  "JSONSaver_validate_items ((cls, info) # rest) =
     (if entry_rejected info then JSONSaver_validate_items [(cls, info)]
      else JSONSaver_validate_items rest)"
  by (cases info) (auto split: option.splits sum.splits)

lemma validate_single_rejected:
  "entry_rejected info \<Longrightarrow> \<exists>e. JSONSaver_validate_items [(cls, info)] = Inl e"
  by (cases info) (auto split: option.splits sum.splits)

lemma validate_items_rejects:
  "(cls, info) \<in> set its \<Longrightarrow> entry_rejected info \<Longrightarrow> \<exists>e. JSONSaver_validate_items its = Inl e"
proof (induction its)
  case Nil
  then show ?case by simp
next
  case (Cons kv its)
  obtain k v where kv: "kv = (k, v)" by (cases kv)
  show ?case
  proof (cases "entry_rejected v")
    case True
    then show ?thesis unfolding kv
      using validate_items_step [of k v its] validate_single_rejected [of v k] by simp
  next
    case False
    then have "(cls, info) \<in> set its" using Cons.prems kv by auto
    then show ?thesis unfolding kv
      using validate_items_step [of k v its] False Cons.IH Cons.prems(2) by simp
  qed
qed

lemma save_to_json_rejects:
  assumes "(cls, info) \<in> set its" and "entry_rejected info"
  shows "\<exists>e. save_to_json L \<lparr>saver_classes_info = JDict its, saver_json_path = p,
                              saver_encoding = enc\<rparr> w = (Inl e, w)"
proof -
  have "its \<noteq> []" using assms(1) by auto
  moreover obtain e where "JSONSaver_validate_items its = Inl e"
    using validate_items_rejects [OF assms] by blast
  ultimately show ?thesis
    by (simp add: save_to_json_def JSONSaver_validate_classes_info_def)
qed

lemma create_uml_after_empty_json_file:
  assumes "files w p = Some text" and "json_loads L text = Some (JDict [])" and "p \<noteq> []"
  shows "\<exists>self w'. UMLCreator_init L JNull (Some p) enc up w = (Inr self, w')
           \<and> create_uml L self w' = (Inl (ValueError ''classes_info is empty.''), w')"
  using assms by (simp add: UMLCreator_init_def load_from_json_def create_uml_def)

section \<open>Attribute discovery\<close>




text \<open>
  Claim C2 at the input \<^verbatim>\<open>def __init__(self): self.x: int = 0\<close>. The statement is an
  \<^verbatim>\<open>ast.AnnAssign\<close>, which \<^verbatim>\<open>_process_init_method\<close> does not look at: no attribute is
  extracted, where the claim gives \<open>x\<close> the label \<^verbatim>\<open>int\<close>. The statements the method
  does look at are \<^verbatim>\<open>ast.Assign\<close> nodes, which have no annotation, so an unannotated
  \<^verbatim>\<open>self.a = v\<close> gets the label \<^verbatim>\<open>Any\<close>.
\<close>

theorem C2_annotated_init_assignment_dropped:
  "attributes (extract_class_details unparse
      [FunctionDef ''__init__'' (Arguments [] [Arg ''self'' None] [])
         [AnnAssign (Attribute (Name ''self'') ''x'') (Name ''int'') (Some (Constant (CInt 0)))]
         [] None] empty_info) = []
   \<and> dict_get (attributes (extract_class_details unparse
      [FunctionDef ''__init__'' margs
         [Assign [Attribute (Name ''self'') a] v] decorator_list returns] info)) a = Some ''Any''"
  by (simp add: empty_info_def process_method_def dict_get_dict_set)

section \<open>Method discovery\<close>

text \<open>
  Claim C5, as the code has it. \<^verbatim>\<open>_extract_arguments\<close> reads \<^verbatim>\<open>arguments.args\<close> alone:
  the positional-only parameters contribute nothing. Of \<^verbatim>\<open>arguments.args\<close> it leaves out
  exactly the parameters named \<^verbatim>\<open>self\<close>, wherever they stand, and every other one
  contributes its entry \<^verbatim>\<open>"name: type-label"\<close> in order. When the method has no
  positional-only parameter, its first parameter is named \<^verbatim>\<open>self\<close> and no other one is,
  the list holds the entries of all positional parameters but the first.
\<close>

theorem C5_arguments:
  "extract_arguments unparse (Arguments posonlyargs arglist kwonlyargs) =
     map (parameter_entry unparse) (filter (\<lambda>a. arg_name a \<noteq> ''self'') arglist)
   \<and> ((\<forall>a \<in> set rest. arg_name a \<noteq> ''self'') \<longrightarrow>
        extract_arguments unparse (Arguments [] (Arg ''self'' ann # rest) kwonlyargs) =
          map (parameter_entry unparse)
            (tl (positional_parameters (Arguments [] (Arg ''self'' ann # rest) kwonlyargs))))"
  by (auto simp add: extract_arguments_loop_eq)

text \<open>Claim C5, the theorem at \<^verbatim>\<open>def f(self, x: int, y)\<close>.\<close>

theorem C5_arguments_witness:
  "arg_name (Arg ''x'' (Some (Name ''int''))) \<noteq> ''self'' \<and> arg_name (Arg ''y'' None) \<noteq> ''self''
   \<and> positional_parameters
        (Arguments [] (Arg ''self'' None # [Arg ''x'' (Some (Name ''int'')), Arg ''y'' None]) [])
       = [Arg ''self'' None, Arg ''x'' (Some (Name ''int'')), Arg ''y'' None]
   \<and> extract_arguments unparse_ident
        (Arguments [] (Arg ''self'' None # [Arg ''x'' (Some (Name ''int'')), Arg ''y'' None]) [])
       = [''x: int'', ''y: Any'']"
  using C5_arguments [of unparse_ident "[]" "[]" "[]"
          "[Arg ''x'' (Some (Name ''int'')), Arg ''y'' None]" None]
  by simp

text \<open>
  Claim C5 as stated fails twice. At \<^verbatim>\<open>def f(cls, x: int)\<close> the first positional
  parameter is not named \<^verbatim>\<open>self\<close> and is not left out. At \<^verbatim>\<open>def f(self, x: int, /)\<close>
  both parameters are positional-only, \<^verbatim>\<open>arguments.args\<close> is empty, and \<open>x\<close>, which is
  not the first positional parameter, contributes no entry.
\<close>

theorem C5_receiver_counterexample:
  "extract_arguments unparse_ident
     (Arguments [] [Arg ''cls'' None, Arg ''x'' (Some (Name ''int''))] [])
     = [''cls: Any'', ''x: int'']
   \<and> extract_arguments unparse_ident
     (Arguments [] [Arg ''cls'' None, Arg ''x'' (Some (Name ''int''))] [])
     \<noteq> map (parameter_entry unparse_ident)
          (tl (positional_parameters
                 (Arguments [] [Arg ''cls'' None, Arg ''x'' (Some (Name ''int''))] [])))
   \<and> extract_arguments unparse_ident
     (Arguments [Arg ''self'' None, Arg ''x'' (Some (Name ''int''))] [] []) = []
   \<and> extract_arguments unparse_ident
     (Arguments [Arg ''self'' None, Arg ''x'' (Some (Name ''int''))] [] [])
     \<noteq> map (parameter_entry unparse_ident)
          (tl (positional_parameters
                 (Arguments [Arg ''self'' None, Arg ''x'' (Some (Name ''int''))] [] [])))"
  by simp



section \<open>The registry\<close>

text \<open>
  Claim C4, as the code has it. Let a source unit hold a class definition named \<open>n\<close> that
  is the last of that name in the unit's walk, let no call of \<^verbatim>\<open>ast.unparse\<close> raise
  while the unit is registered up to and including that class definition, and let no unit
  processed after it define \<open>n\<close>. Then after the pass, whatever the earlier units defined,
  the registry has exactly one entry under \<open>n\<close>; the entry is the model extracted from
  that class definition alone, starting from a fresh entry; and the origin index gives
  that unit's path. The pass itself is a total function: no collision raises.
\<close>

theorem C4_last_unit_wins:
  assumes "walk tree = pre @ ClassDef n bases body # post"
    and "\<forall>s \<in> set pre. \<not> node_raises fails s"
    and "\<not> node_raises fails (ClassDef n bases body)"
    and "\<forall>s \<in> set post. \<not> is_class_named n s"
    and "\<forall>u \<in> set later. \<not> unit_defines n u"
  shows "dict_get (classes_info
           (parse_all_files U fails r (earlier @ (path, Some tree) # later) new_parser)) n =
           Some (extract_class_details U body
                   \<lparr>attributes = [], methods = [], parent_classes = name_ids bases\<rparr>)
       \<and> length (filter (\<lambda>e. fst e = n) (classes_info
           (parse_all_files U fails r (earlier @ (path, Some tree) # later) new_parser))) = 1
       \<and> dict_get (classes_path
           (parse_all_files U fails r (earlier @ (path, Some tree) # later) new_parser)) n =
           Some (r path)"
proof -
  let ?fresh = "\<lparr>attributes = [], methods = [], parent_classes = name_ids bases\<rparr>"
  let ?st0 = "parse_all_files U fails r earlier new_parser"
  let ?st1 = "fst (register_nodes U fails r path pre ?st0)"
  let ?st3 = "fst (register_nodes U fails r path (ClassDef n bases body # post) ?st1)"
  let ?final = "parse_all_files U fails r (earlier @ (path, Some tree) # later) new_parser"
  have scan: "extract_class_details_try U fails body ?fresh =
                (extract_class_details U body ?fresh, False)"
    using assms(3) by (simp add: extract_class_details_try_no_raise)
  have reg: "fst (register_classes U fails r path tree ?st0) = ?st3"
    using register_nodes_no_raise [OF assms(2), of U r path "ClassDef n bases body # post" ?st0]
    by (simp add: register_classes_def assms(1))
  have final: "?final = parse_all_files U fails r later ?st3"
    using parse_all_files_append [of U fails r earlier "(path, Some tree) # later" new_parser] reg
    by simp
  have info3: "dict_get (classes_info ?st3) n = Some (extract_class_details U body ?fresh)"
    using register_nodes_class [OF assms(4), of U fails r path bases body ?st1] scan
    by simp
  have path3: "dict_get (classes_path ?st3) n = Some (r path)"
    using register_nodes_class [OF assms(4), of U fails r path bases body ?st1]
    by blast
  have info: "dict_get (classes_info ?final) n = Some (extract_class_details U body ?fresh)"
    unfolding final using parse_all_files_other [OF assms(5), of U fails r ?st3] info3 by simp
  have path: "dict_get (classes_path ?final) n = Some (r path)"
    unfolding final using parse_all_files_other [OF assms(5), of U fails r ?st3] path3 by simp
  have "distinct (dict_keys (classes_info ?final))"
    by (rule parse_all_files_distinct) (simp add: new_parser_def dict_keys_def)
  then have "length (filter (\<lambda>e. fst e = n) (classes_info ?final)) = 1"
    using info by (rule one_entry_per_key)
  with info path show ?thesis by blast
qed

text \<open>
  Claim C4, the theorem at two units that both define \<^verbatim>\<open>A\<close>: \<^verbatim>\<open>a.py\<close> with
  \<^verbatim>\<open>class A: x = 1\<close> and then \<^verbatim>\<open>b.py\<close> with \<^verbatim>\<open>class Outer: class A(B): z: int\<close>, whose
  walk meets \<^verbatim>\<open>Outer\<close> and then the nested \<^verbatim>\<open>A\<close>.
\<close>

theorem C4_last_unit_wins_witness:
  "walk [ClassDef ''Outer'' [] [ClassDef ''A'' [Name ''B''] [AnnAssign (Name ''z'') (Name ''int'') None]]]
     = [ClassDef ''Outer'' [] [ClassDef ''A'' [Name ''B''] [AnnAssign (Name ''z'') (Name ''int'') None]]]
         @ ClassDef ''A'' [Name ''B''] [AnnAssign (Name ''z'') (Name ''int'') None]
         # [AnnAssign (Name ''z'') (Name ''int'') None]
   \<and> \<not> node_raises digits_limit_fails
         (ClassDef ''Outer'' [] [ClassDef ''A'' [Name ''B''] [AnnAssign (Name ''z'') (Name ''int'') None]])
   \<and> \<not> node_raises digits_limit_fails
         (ClassDef ''A'' [Name ''B''] [AnnAssign (Name ''z'') (Name ''int'') None])
   \<and> is_class_named ''A'' (ClassDef ''A'' [] [Assign [Name ''x''] (Constant (CInt 1))])
   \<and> dict_get (classes_info (parse_all_files unparse_ident digits_limit_fails id
        ([(''a.py'', Some [ClassDef ''A'' [] [Assign [Name ''x''] (Constant (CInt 1))]])]
           @ (''b.py'', Some [ClassDef ''Outer'' [] [ClassDef ''A'' [Name ''B'']
                                [AnnAssign (Name ''z'') (Name ''int'') None]]]) # [])
        new_parser)) ''A''
       = Some \<lparr>attributes = [(''z'', ''int'')], methods = [], parent_classes = [''B'']\<rparr>
   \<and> length (filter (\<lambda>e. fst e = ''A'') (classes_info
        (parse_all_files unparse_ident digits_limit_fails id
        ([(''a.py'', Some [ClassDef ''A'' [] [Assign [Name ''x''] (Constant (CInt 1))]])]
           @ (''b.py'', Some [ClassDef ''Outer'' [] [ClassDef ''A'' [Name ''B'']
                                [AnnAssign (Name ''z'') (Name ''int'') None]]]) # [])
        new_parser))) = 1
   \<and> dict_get (classes_path (parse_all_files unparse_ident digits_limit_fails id
        ([(''a.py'', Some [ClassDef ''A'' [] [Assign [Name ''x''] (Constant (CInt 1))]])]
           @ (''b.py'', Some [ClassDef ''Outer'' [] [ClassDef ''A'' [Name ''B'']
                                [AnnAssign (Name ''z'') (Name ''int'') None]]]) # [])
        new_parser)) ''A''
       = Some ''b.py''"
proof -
  let ?inner = "ClassDef ''A'' [Name ''B''] [AnnAssign (Name ''z'') (Name ''int'') None]"
  let ?outer = "ClassDef ''Outer'' [] [?inner]"
  have h1: "walk [?outer] = [?outer] @ ?inner # [AnnAssign (Name ''z'') (Name ''int'') None]"
    by (simp add: walk_def)
  have h2: "\<forall>s \<in> set [?outer]. \<not> node_raises digits_limit_fails s"
    by simp
  have h3: "\<not> node_raises digits_limit_fails ?inner"
    by simp
  have h4: "\<forall>s \<in> set [AnnAssign (Name ''z'') (Name ''int'') None]. \<not> is_class_named ''A'' s"
    by simp
  have h5: "\<forall>u \<in> set []. \<not> unit_defines ''A'' u"
    by simp
  show ?thesis
    using h1 h2 h3
      C4_last_unit_wins [OF h1 h2 h3 h4 h5, where U = unparse_ident and r = id
        and path = "''b.py''"
        and earlier = "[(''a.py'', Some [ClassDef ''A'' [] [Assign [Name ''x''] (Constant (CInt 1))]])]"]
    by simp
qed

text \<open>
  Claim C4 as stated fails when registering the later unit raises before its class is
  reached. \<^verbatim>\<open>a.py\<close> holds \<^verbatim>\<open>class A: x = 1\<close>. \<^verbatim>\<open>b.py\<close> holds
  \<^verbatim>\<open>class Z: def f(self, x: 0x...): pass\<close>, the annotation a hexadecimal literal whose
  value has more than 4300 decimal digits, and then \<^verbatim>\<open>class A(B): y = 1\<close>. \<^verbatim>\<open>ast.unparse\<close> raises on the annotation
  while \<^verbatim>\<open>Z\<close> is scanned, the \<^verbatim>\<open>except\<close> branch of \<^verbatim>\<open>_parse_all_files\<close> abandons the
  unit, and the registry keeps the entry of \<^verbatim>\<open>a.py\<close> under \<^verbatim>\<open>A\<close>, not the class of the
  later unit.
\<close>

theorem C4_raising_unit_counterexample:
  "dict_get (classes_info (parse_all_files unparse_ident digits_limit_fails id
      [(''a.py'', Some [ClassDef ''A'' [] [Assign [Name ''x''] (Constant (CInt 1))]]),
       (''b.py'', Some
          [ClassDef ''Z'' []
             [FunctionDef ''f''
                (Arguments [] [Arg ''self'' None,
                               Arg ''x'' (Some (Constant (CInt (10 ^ int_max_str_digits))))] [])
                [] [] None],
           ClassDef ''A'' [Name ''B''] [Assign [Name ''y''] (Constant (CInt 1))]])]
      new_parser)) ''A''
     = Some \<lparr>attributes = [(''x'', ''int'')], methods = [], parent_classes = []\<rparr>
   \<and> dict_get (classes_info (parse_all_files unparse_ident digits_limit_fails id
      [(''a.py'', Some [ClassDef ''A'' [] [Assign [Name ''x''] (Constant (CInt 1))]]),
       (''b.py'', Some
          [ClassDef ''Z'' []
             [FunctionDef ''f''
                (Arguments [] [Arg ''self'' None,
                               Arg ''x'' (Some (Constant (CInt (10 ^ int_max_str_digits))))] [])
                [] [] None],
           ClassDef ''A'' [Name ''B''] [Assign [Name ''y''] (Constant (CInt 1))]])]
      new_parser)) ''A''
     \<noteq> Some (extract_class_details unparse_ident [Assign [Name ''y''] (Constant (CInt 1))]
               \<lparr>attributes = [], methods = [], parent_classes = name_ids [Name ''B'']\<rparr>)"
  by (simp add: register_classes_def walk_def new_parser_def dict_get_def)

section \<open>The diagram description\<close>

text \<open>
  Claim C3. Let \<open>reg\<close> be a registry with at least one class. Building the diagram
  builder from it succeeds and keeps it, and the text \<^verbatim>\<open>generate_dot\<close> returns is made of
  the line \<^verbatim>\<open>digraph G {\<close>, then one node block per class of \<open>reg\<close> in registry order,
  then the edge statements, class by class in registry order and within a class one per
  name of its \<^verbatim>\<open>parent_classes\<close> in list order, then the line \<^verbatim>\<open>}\<close>, joined by line
  feeds. A node block is the table written out in \<open>node_block\<close>; an edge statement reads
  \<^verbatim>\<open>parent -> child [arrowhead=onormal];\<close>. There are as many node blocks as classes and
  as many edge statements as (class, parent) pairs.
\<close>

theorem C3_generate_dot:
  assumes "reg \<noteq> []"
  shows "UMLCreator_init L (registry_to_json reg) None enc up w =
           (Inr \<lparr>creator_encoding = enc, creator_uml_path = up,
                 creator_classes_info = Some (registry_to_json reg)\<rparr>, w)
       \<and> (\<exists>blocks edges.
            generate_dot L \<lparr>creator_encoding = enc, creator_uml_path = up,
                            creator_classes_info = Some (registry_to_json reg)\<rparr> =
              Inr (join [CHR 0x0A] ([''digraph G {''] @ blocks @ edges @ [''}'']))
            \<and> blocks = map node_block reg
            \<and> edges = concat (map class_edges reg)
            \<and> length blocks = length reg
            \<and> length edges = sum_list (map (\<lambda>kc. length (parent_classes (snd kc))) reg))"
proof -
  have "generate_dot L (\<lparr>creator_encoding = enc, creator_uml_path = up,
                          creator_classes_info = None\<rparr>
                        \<lparr>creator_classes_info := Some (registry_to_json reg)\<rparr>) =
          Inr (join [CHR 0x0A] ([''digraph G {''] @ map node_block reg
                         @ concat (map class_edges reg) @ [''}'']))"
    by (rule generate_dot_typed)
  then show ?thesis
    using init_typed [OF assms] length_class_edges [of reg]
    by simp
qed

text \<open>
  Claim C3, the theorem at the registry of \<^verbatim>\<open>class Animal\<close> (attribute \<^verbatim>\<open>name: str\<close>,
  method \<^verbatim>\<open>speak() -> str\<close>) and \<^verbatim>\<open>class Dog(Animal)\<close> (attribute \<^verbatim>\<open>breed\<close>): the whole
  text, with its two node blocks and the one edge \<^verbatim>\<open>Animal -> Dog\<close>.
\<close>

theorem C3_generate_dot_witness:
  "[(''Animal'', \<lparr>attributes = [(''name'', ''str'')],
                   methods = [\<lparr>name = ''speak'', args = [], decorators = [],
                               return_type = ''str''\<rparr>],
                   parent_classes = []\<rparr>),
    (''Dog'', \<lparr>attributes = [(''breed'', ''Any'')], methods = [],
                parent_classes = [''Animal'']\<rparr>)] \<noteq> []
   \<and> generate_dot plain_libs \<lparr>creator_encoding = ''utf-8'', creator_uml_path = ''UML_test.png'',
        creator_classes_info = Some (registry_to_json
          [(''Animal'', \<lparr>attributes = [(''name'', ''str'')],
                   methods = [\<lparr>name = ''speak'', args = [], decorators = [],
                               return_type = ''str''\<rparr>],
                   parent_classes = []\<rparr>),
    (''Dog'', \<lparr>attributes = [(''breed'', ''Any'')], methods = [],
                parent_classes = [''Animal'']\<rparr>)])\<rparr> =
       Inr (''digraph G {'' @
          [CHR 0x0A] @
          [CHR 0x0A] @
          ''        Animal ['' @
          [CHR 0x0A] @
          ''            shape=plaintext'' @
          [CHR 0x0A] @
          ''            label=<'' @
          [CHR 0x0A] @
          ''                <table border=\"0\" cellborder=\"1\" cellspacing=\"0\">'' @
          [CHR 0x0A] @
          ''                    <tr><td><b>Animal</b></td></tr>'' @
          [CHR 0x0A] @
          ''                    <tr><td align=\"left\">- name: str</td></tr>'' @
          [CHR 0x0A] @
          ''                    <tr><td align=\"left\">+ speak(): str</td></tr>'' @
          [CHR 0x0A] @
          ''                </table>'' @
          [CHR 0x0A] @
          ''            >'' @
          [CHR 0x0A] @
          ''        ];'' @
          [CHR 0x0A] @
          ''        '' @
          [CHR 0x0A] @
          [CHR 0x0A] @
          ''        Dog ['' @
          [CHR 0x0A] @
          ''            shape=plaintext'' @
          [CHR 0x0A] @
          ''            label=<'' @
          [CHR 0x0A] @
          ''                <table border=\"0\" cellborder=\"1\" cellspacing=\"0\">'' @
          [CHR 0x0A] @
          ''                    <tr><td><b>Dog</b></td></tr>'' @
          [CHR 0x0A] @
          ''                    <tr><td align=\"left\">- breed: Any</td></tr>'' @
          [CHR 0x0A] @
          ''                    '' @
          [CHR 0x0A] @
          ''                </table>'' @
          [CHR 0x0A] @
          ''            >'' @
          [CHR 0x0A] @
          ''        ];'' @
          [CHR 0x0A] @
          ''        '' @
          [CHR 0x0A] @
          ''Animal -> Dog [arrowhead=onormal];'' @
          [CHR 0x0A] @
          ''}'')"
proof -
  let ?reg = "[(''Animal'', \<lparr>attributes = [(''name'', ''str'')],
                   methods = [\<lparr>name = ''speak'', args = [], decorators = [],
                               return_type = ''str''\<rparr>],
                   parent_classes = []\<rparr>),
    (''Dog'', \<lparr>attributes = [(''breed'', ''Any'')], methods = [],
                parent_classes = [''Animal'']\<rparr>)]"
  have h: "?reg \<noteq> []" by simp
  have blocks: "map node_block ?reg = [[CHR 0x0A] @
         ''        Animal ['' @
         [CHR 0x0A] @
         ''            shape=plaintext'' @
         [CHR 0x0A] @
         ''            label=<'' @
         [CHR 0x0A] @
         ''                <table border=\"0\" cellborder=\"1\" cellspacing=\"0\">'' @
         [CHR 0x0A] @
         ''                    <tr><td><b>Animal</b></td></tr>'' @
         [CHR 0x0A] @
         ''                    <tr><td align=\"left\">- name: str</td></tr>'' @
         [CHR 0x0A] @
         ''                    <tr><td align=\"left\">+ speak(): str</td></tr>'' @
         [CHR 0x0A] @
         ''                </table>'' @
         [CHR 0x0A] @
         ''            >'' @
         [CHR 0x0A] @
         ''        ];'' @
         [CHR 0x0A] @
         ''        '', 
       [CHR 0x0A] @
         ''        Dog ['' @
         [CHR 0x0A] @
         ''            shape=plaintext'' @
         [CHR 0x0A] @
         ''            label=<'' @
         [CHR 0x0A] @
         ''                <table border=\"0\" cellborder=\"1\" cellspacing=\"0\">'' @
         [CHR 0x0A] @
         ''                    <tr><td><b>Dog</b></td></tr>'' @
         [CHR 0x0A] @
         ''                    <tr><td align=\"left\">- breed: Any</td></tr>'' @
         [CHR 0x0A] @
         ''                    '' @
         [CHR 0x0A] @
         ''                </table>'' @
         [CHR 0x0A] @
         ''            >'' @
         [CHR 0x0A] @
         ''        ];'' @
         [CHR 0x0A] @
         ''        '']"
    by (simp add: node_block_def)
  have edges: "concat (map class_edges ?reg) = [''Animal -> Dog [arrowhead=onormal];'']"
    by (simp add: class_edges_def)
  show ?thesis
    using h C3_generate_dot [OF h, of plain_libs "''utf-8''" "''UML_test.png''" empty_world]
    unfolding blocks edges by simp
qed

text \<open>
  Claim C7 at the request \<^verbatim>\<open>UMLCreator(classes_info={}).create_uml()\<close>. The constructor
  takes neither of its two branches (\<^verbatim>\<open>{}\<close> is false as a condition), so
  \<^verbatim>\<open>self.classes_info\<close> is never assigned, and \<^verbatim>\<open>create_uml\<close> raises \<^verbatim>\<open>AttributeError\<close>
  on its first line, where the claim has the empty-model error
  \<^verbatim>\<open>ValueError("classes_info is empty.")\<close>. Nothing is written or rendered.
\<close>

theorem C7_empty_mapping_attribute_error:
  "UMLCreator_init L (JDict []) None enc up w =
     (Inr \<lparr>creator_encoding = enc, creator_uml_path = up, creator_classes_info = None\<rparr>, w)
   \<and> create_uml L \<lparr>creator_encoding = enc, creator_uml_path = up, creator_classes_info = None\<rparr> w =
     (Inl (AttributeError ''classes_info''), w)"
  by (simp add: UMLCreator_init_def create_uml_def)

text \<open>
  Claim C10. On a diagram builder whose registry has no class, \<^verbatim>\<open>generate_dot\<close> itself
  does not fail: it returns the wrapper \<^verbatim>\<open>digraph G {\<close>, \<^verbatim>\<open>}\<close> with nothing in between.
  The refusal of the empty registry is \<^verbatim>\<open>create_uml\<close>'s, which raises on the same
  object without leaving any trace of a call to the renderer.
\<close>

theorem C10_generate_dot_empty:
  "generate_dot L \<lparr>creator_encoding = enc, creator_uml_path = up,
                    creator_classes_info = Some (JDict [])\<rparr> =
     Inr (''digraph G {'' @ nl @ ''}'')
   \<and> create_uml L \<lparr>creator_encoding = enc, creator_uml_path = up,
                     creator_classes_info = Some (JDict [])\<rparr> w =
     (Inl (ValueError ''classes_info is empty.''), w)"
  by (simp add: generate_dot_def create_uml_def)

section \<open>The boundary checks\<close>

text \<open>
  Claim C9. When \<^verbatim>\<open>UMLCreator\<close> is constructed with a \<^verbatim>\<open>classes_info\<close> that is true as a
  condition (a mapping with at least one entry) and with a \<^verbatim>\<open>json_path\<close> that is a
  non-empty string, the constructor raises the \<^verbatim>\<open>ValueError\<close> of the two data sources
  and the world is as before: the file is not opened, whether it exists or not, and the
  mapping is not validated, whatever its shape.
\<close>

theorem C9_one_data_source:
  assumes "truthy classes_info_arg" and "json_path \<noteq> []"
  shows "UMLCreator_init L classes_info_arg (Some json_path) enc up w =
           (Inl (ValueError ''Only to choose one data source, classes_info or json_path.''), w)"
  using assms by (simp add: UMLCreator_init_def)

text \<open>
  Claim C9, the theorem at a mapping that would not pass validation and a path to a file
  that does not exist.
\<close>

theorem C9_one_data_source_witness:
  "truthy (JDict [(''A'', JNull)]) \<and> ''missing.json'' \<noteq> []
   \<and> files empty_world ''missing.json'' = None
   \<and> UMLCreator_init plain_libs (JDict [(''A'', JNull)]) (Some ''missing.json'')
        ''utf-8'' ''UML_test.png'' empty_world =
       (Inl (ValueError ''Only to choose one data source, classes_info or json_path.''),
        empty_world)"
proof -
  have h1: "truthy (JDict [(''A'', JNull)])" by simp
  have h2: "''missing.json'' \<noteq> []" by simp
  show ?thesis
    using h1 h2
      C9_one_data_source [OF h1 h2, of plain_libs "''utf-8''" "''UML_test.png''" empty_world]
    by (simp add: empty_world_def)
qed

text \<open>
  Claim C8 at the model \<^verbatim>\<open>{"A": {"attributes": {}, "methods": {}, "parent_classes": []}}\<close>.
  Its \<^verbatim>\<open>methods\<close> is a dict, not a list of dicts, but the check
  \<^verbatim>\<open>all(isinstance(method, dict) for method in info["methods"])\<close> looks at elements only
  and there are none: validation returns \<^verbatim>\<open>True\<close> and \<^verbatim>\<open>save_to_json\<close> writes the file,
  where the claim has the shape error raised before any write.
\<close>

theorem C8_empty_dict_methods_saved:
  "save_to_json L
     \<lparr>saver_classes_info =
        JDict [(''A'', JDict [(''attributes'', JDict []), (''methods'', JDict []),
                              (''parent_classes'', JList [])])],
      saver_json_path = ''out.json'', saver_encoding = ''utf-8''\<rparr> w =
   (Inr (),
    w\<lparr>files := (files w)(''out.json'' \<mapsto> json_dumps L
         (JDict [(''A'', JDict [(''attributes'', JDict []), (''methods'', JDict []),
                              (''parent_classes'', JList [])])])),
      trace := trace w @ [OpenWrite ''out.json'', Print ''Saved to json fileout.json.'']\<rparr>)"
  by (simp add: save_to_json_def JSONSaver_validate_classes_info_def required_keys_def)

end
